theory Spec2Isabelle
  imports Main
begin

section \<open>Configuration resolution of tesla-http-proxy-insecure\<close>

text \<open>
  The command keeps one configuration record (\<open>httpConfig\<close>), filled first by the
  command-line flags and then by \<open>readFromEnvironment\<close>. The record is modelled as a
  value that is passed in and returned; the process environment is a map from
  variable names to values, so that \<open>os.LookupEnv\<close> is a map lookup (\<open>None\<close> when
  the variable is absent). Go strings are byte sequences, as \<open>string\<close> is here.
\<close>

subsection \<open>Constants\<close>

definition defaultPort :: int where
  "defaultPort = 8080"

definition cacheSize :: int where
  "cacheSize = 10000"

definition EnvHost :: string where
  "EnvHost = ''TESLA_HTTP_PROXY_HOST''"

definition EnvPort :: string where
  "EnvPort = ''TESLA_HTTP_PROXY_PORT''"

definition EnvTimeout :: string where
  "EnvTimeout = ''TESLA_HTTP_PROXY_TIMEOUT''"

definition EnvVerbose :: string where
  "EnvVerbose = ''TESLA_VERBOSE''"

subsection \<open>The configuration record\<close>

text \<open>
  \<open>port\<close> is a Go \<open>int\<close> and \<open>timeout\<close> a \<open>time.Duration\<close> (an \<open>int64\<close> count of
  nanoseconds). \<open>readFromEnvironment\<close> does no arithmetic on either, it only stores
  what the parsers return, so both are \<open>int\<close> here; the parsers below write out
  every bound and wrap-around of their own.
\<close>

record HTTPProxyConfig =
  verbose :: bool
  host :: string
  port :: int
  timeout :: int

type_synonym environ = "string \<rightharpoonup> string"

subsection \<open>strconv.Atoi\<close>

text \<open>
  \<open>strconv.Atoi\<close> belongs to the Go standard library. It is modelled after the
  library's source for a platform whose \<open>int\<close> has 64 bits, with the base fixed to
  10 and the bit size to \<open>intSize\<close>, the only way \<open>Atoi\<close> calls \<open>ParseInt\<close>. A
  result is the pair Go returns: the value and the error (\<open>None\<close> for \<open>nil\<close>).
\<close>

datatype numError = ErrSyntax | ErrRange

definition intSize :: nat where
  "intSize = 64"

definition maxUint64 :: nat where
  "maxUint64 = 2 ^ 64 - 1"

text \<open>The byte \<open>c | ('x' - 'X')\<close>, computed on the byte's number.\<close>

definition lower :: "nat \<Rightarrow> nat" where
  "lower c = (if (c div 32) mod 2 = 1 then c else c + 32)"

text \<open>
  One iteration of the loop of \<open>ParseUint\<close> at base 10, on the byte \<open>ch\<close> and the
  accumulator \<open>n\<close>: \<open>Inl\<close> is a return out of the loop, \<open>Inr\<close> the accumulator of
  the next iteration. The underscore case needs base 0 and is not taken. \<open>n\<close> is a
  \<open>uint64\<close>: the multiplication and the addition wrap.
\<close>

definition ParseUint_step :: "char \<Rightarrow> nat \<Rightarrow> (nat \<times> numError option) + nat" where
  "ParseUint_step ch n =
     (let c = (of_char ch :: nat);
          maxVal = 2 ^ intSize - 1;
          d = (if 48 \<le> c \<and> c \<le> 57 then Some (c - 48)
               else if 97 \<le> lower c \<and> lower c \<le> 122 then Some (lower c - 97 + 10)
               else None) in
      case d of
        None \<Rightarrow> Inl (0, Some ErrSyntax)
      | Some d \<Rightarrow>
          if d \<ge> 10 then Inl (0, Some ErrSyntax)
          else if n \<ge> maxUint64 div 10 + 1 then Inl (maxVal, Some ErrRange)
          else
            (let n10 = (n * 10) mod 2 ^ 64;
                 n1 = (n10 + d) mod 2 ^ 64 in
             if n1 < n10 \<or> n1 > maxVal then Inl (maxVal, Some ErrRange)
             else Inr n1))"

fun ParseUint_loop :: "string \<Rightarrow> nat \<Rightarrow> nat \<times> numError option" where
  "ParseUint_loop [] n = (n, None)"
| "ParseUint_loop (ch # s) n =
     (case ParseUint_step ch n of Inl r \<Rightarrow> r | Inr n1 \<Rightarrow> ParseUint_loop s n1)"

definition ParseUint :: "string \<Rightarrow> nat \<times> numError option" where
  "ParseUint s = (if s = [] then (0, Some ErrSyntax) else ParseUint_loop s 0)"

text \<open>
  \<open>ParseInt\<close>: the sign is picked off, the rest goes to \<open>ParseUint\<close>. A syntax
  error returns 0; a value out of range returns the largest magnitude of its
  sign, with \<open>ErrRange\<close>. In the last branch \<open>un \<le> 2 ^ 63\<close>, and the \<open>int64\<close>
  conversion followed by the negation gives \<open>- un\<close> also at \<open>un = 2 ^ 63\<close>.
\<close>

definition ParseInt :: "string \<Rightarrow> int \<times> numError option" where
  "ParseInt s =
     (case s of
        [] \<Rightarrow> (0, Some ErrSyntax)
      | c # t \<Rightarrow>
          (let neg = (c = CHR ''-'');
               s1 = (if c = CHR ''+'' then t else if c = CHR ''-'' then t else s);
               (un, err) = ParseUint s1 in
           if err \<noteq> None \<and> err \<noteq> Some ErrRange then (0, err)
           else
             (let cutoff = (2 :: nat) ^ (intSize - 1) in
              if \<not> neg \<and> un \<ge> cutoff then (int (cutoff - 1), Some ErrRange)
              else if neg \<and> un > cutoff then (- int cutoff, Some ErrRange)
              else (if neg then - int un else int un, None))))"

text \<open>
  The loop of the fast path of \<open>Atoi\<close>: \<open>ch -= '0'\<close> is a byte subtraction, so a
  byte below \<open>'0'\<close> wraps to a number above 9. \<open>None\<close> is the syntax error.
\<close>

definition Atoi_digit :: "char \<Rightarrow> nat" where
  "Atoi_digit ch = ((of_char ch :: nat) + 256 - 48) mod 256"

fun Atoi_loop :: "string \<Rightarrow> int \<Rightarrow> int option" where
  "Atoi_loop [] n = Some n"
| "Atoi_loop (ch # s) n =
     (if Atoi_digit ch > 9 then None else Atoi_loop s (n * 10 + int (Atoi_digit ch)))"

definition Atoi :: "string \<Rightarrow> int \<times> numError option" where
  "Atoi s =
     (let sLen = length s in
      if (intSize = 32 \<and> 0 < sLen \<and> sLen < 10) \<or> (intSize = 64 \<and> 0 < sLen \<and> sLen < 19)
      then
        (let signed = (hd s = CHR ''-'' \<or> hd s = CHR ''+'');
             s1 = (if signed then tl s else s) in
         if signed \<and> length s1 < 1 then (0, Some ErrSyntax)
         else
           (case Atoi_loop s1 0 of
              None \<Rightarrow> (0, Some ErrSyntax)
            | Some n \<Rightarrow> (if hd s = CHR ''-'' then - n else n, None)))
      else ParseInt s)"

subsection \<open>time.ParseDuration\<close>

text \<open>
  \<open>time.ParseDuration\<close> belongs to the Go standard library too, and is modelled
  after its source: an optional sign, then one or more segments of digits, an
  optional fraction and a unit. A \<open>Duration\<close> is an \<open>int64\<close> count of nanoseconds.
  The accumulators are \<open>uint64\<close>; where the library's own checks do not exclude an
  overflow the wrap-around is written out.

  The contribution of a fraction is computed by the library in floating point,
  \<open>uint64(float64(f) * (float64(unit) / scale))\<close>. That one expression is a
  parameter \<open>fm\<close> of the model (applied to \<open>f\<close>, \<open>unit\<close> and \<open>scale\<close>); it is used
  only when a segment has a non-zero fraction.
\<close>

datatype durError = InvalidDuration | MissingUnit | UnknownUnit string

type_synonym fracmul = "nat \<Rightarrow> nat \<Rightarrow> nat \<Rightarrow> nat"

definition digitByte :: "char \<Rightarrow> bool" where
  "digitByte c = (\<not> ((of_char c :: nat) < 48 \<or> (of_char c :: nat) > 57))"

text \<open>One digit of \<open>leadingInt\<close>: \<open>None\<close> is the overflow error \<open>errLeadingInt\<close>.\<close>

definition leadingInt_step :: "char \<Rightarrow> nat \<Rightarrow> nat option" where
  "leadingInt_step c x =
     (if x > 2 ^ 63 div 10 then None
      else
        (let x1 = x * 10 + (of_char c :: nat) - 48 in
         if x1 > 2 ^ 63 then None else Some x1))"

fun leadingInt_loop :: "string \<Rightarrow> nat \<Rightarrow> (nat \<times> string) option" where
  "leadingInt_loop [] x = Some (x, [])"
| "leadingInt_loop (c # s) x =
     (if \<not> digitByte c then Some (x, c # s)
      else
        (case leadingInt_step c x of
           None \<Rightarrow> None
         | Some x1 \<Rightarrow> leadingInt_loop s x1))"

definition leadingInt :: "string \<Rightarrow> (nat \<times> string) option" where
  "leadingInt s = leadingInt_loop s 0"

text \<open>
  One digit of \<open>leadingFraction\<close>, on the triple of \<open>x\<close>, \<open>scale\<close> and the
  \<open>overflow\<close> flag. \<open>scale\<close> is a power of ten, kept as a number.
\<close>

definition leadingFraction_step :: "char \<Rightarrow> nat \<times> nat \<times> bool \<Rightarrow> nat \<times> nat \<times> bool" where
  "leadingFraction_step c st =
     (case st of (x, scale, overflow) \<Rightarrow>
        if overflow then (x, scale, overflow)
        else if x > (2 ^ 63 - 1) div 10 then (x, scale, True)
        else
          (let y = x * 10 + (of_char c :: nat) - 48 in
           if y > 2 ^ 63 then (x, scale, True) else (y, scale * 10, overflow)))"

fun leadingFraction_loop :: "string \<Rightarrow> nat \<times> nat \<times> bool \<Rightarrow> nat \<times> nat \<times> string" where
  "leadingFraction_loop [] st = (fst st, fst (snd st), [])"
| "leadingFraction_loop (c # s) st =
     (if \<not> digitByte c then (fst st, fst (snd st), c # s)
      else leadingFraction_loop s (leadingFraction_step c st))"

definition leadingFraction :: "string \<Rightarrow> nat \<times> nat \<times> string" where
  "leadingFraction s = leadingFraction_loop s (0, 1, False)"

text \<open>The two spellings of the microsecond unit are U+00B5 and U+03BC in UTF-8.\<close>

definition unitMap :: "string \<rightharpoonup> nat" where
  "unitMap = map_of
     [(''ns'', 1),
      (''us'', 1000),
      ([CHR 0xC2, CHR 0xB5, CHR ''s''], 1000),
      ([CHR 0xCE, CHR 0xBC, CHR ''s''], 1000),
      (''ms'', 1000000),
      (''s'', 1000000000),
      (''m'', 60000000000),
      (''h'', 3600000000000)]"

text \<open>
  One iteration of the loop of \<open>ParseDuration\<close> on the non-empty rest \<open>s\<close>:
  \<open>Inl\<close> is an error return, \<open>Inr\<close> the segment's nanoseconds and the rest of
  the string.
\<close>

definition ParseDuration_segment :: "fracmul \<Rightarrow> string \<Rightarrow> durError + (nat \<times> string)" where
  "ParseDuration_segment fm s =
     (if \<not> (hd s = CHR ''.'' \<or> digitByte (hd s)) then Inl InvalidDuration
      else
        (case leadingInt s of
           None \<Rightarrow> Inl InvalidDuration
         | Some (v, s1) \<Rightarrow>
             (let pre = (length s \<noteq> length s1);
                  dot = (s1 \<noteq> [] \<and> hd s1 = CHR ''.'');
                  (f, scale, s2) = (if dot then leadingFraction (tl s1) else (0, 1, s1));
                  post = (dot \<and> length (tl s1) \<noteq> length s2) in
              if \<not> pre \<and> \<not> post then Inl InvalidDuration
              else
                (let i = length (takeWhile (\<lambda>c. \<not> (c = CHR ''.'' \<or> digitByte c)) s2) in
                 if i = 0 then Inl MissingUnit
                 else
                   (let u = take i s2;
                        s3 = drop i s2 in
                    case unitMap u of
                      None \<Rightarrow> Inl (UnknownUnit u)
                    | Some unit \<Rightarrow>
                        if v > 2 ^ 63 div unit then Inl InvalidDuration
                        else
                          (let v1 = v * unit in
                           if f > 0 then
                             (let v2 = (v1 + fm f unit scale) mod 2 ^ 64 in
                              if v2 > 2 ^ 63 then Inl InvalidDuration else Inr (v2, s3))
                           else Inr (v1, s3)))))))"

lemma leadingInt_loop_length:
  "leadingInt_loop s x = Some (v, r) \<Longrightarrow> length r \<le> length s"
proof (induction s arbitrary: x)
  case Nil
  then show ?case by simp
next
  case (Cons c s)
  show ?case
  proof (cases "digitByte c")
    case False
    with Cons.prems show ?thesis by simp
  next
    case True
    with Cons.prems obtain x1 where "leadingInt_loop s x1 = Some (v, r)"
      by (auto split: option.splits)
    then have "length r \<le> length s" by (rule Cons.IH)
    then show ?thesis by simp
  qed
qed

lemma leadingFraction_loop_length:
  "leadingFraction_loop s st = (f, sc, r) \<Longrightarrow> length r \<le> length s"
proof (induction s arbitrary: st)
  case Nil
  then show ?case by simp
next
  case (Cons c s)
  show ?case
  proof (cases "digitByte c")
    case False
    with Cons.prems show ?thesis by simp
  next
    case True
    with Cons.prems have "leadingFraction_loop s (leadingFraction_step c st) = (f, sc, r)"
      by simp
    then have "length r \<le> length s" by (rule Cons.IH)
    then show ?thesis by simp
  qed
qed

lemma ParseDuration_segment_length:
  assumes "ParseDuration_segment fm s = Inr (v, r)"
  shows "length r < length s"
proof -
  from assms obtain v0 s1 f sc s2 i where
    li: "leadingInt s = Some (v0, s1)" and
    lf: "(if s1 \<noteq> [] \<and> hd s1 = CHR ''.'' then leadingFraction (tl s1) else (0, 1, s1)) = (f, sc, s2)" and
    i: "i = length (takeWhile (\<lambda>c. \<not> (c = CHR ''.'' \<or> digitByte c)) s2)" "i \<noteq> 0" and
    r: "r = drop i s2"
    unfolding ParseDuration_segment_def Let_def
    by (auto split: if_splits option.splits prod.splits)
  have a: "length s1 \<le> length s"
    using li leadingInt_loop_length unfolding leadingInt_def by blast
  have b: "length s2 \<le> length s1"
    using lf leadingFraction_loop_length [of "tl s1" "(0, 1, False)" f sc s2]
    unfolding leadingFraction_def by (auto split: if_splits)
  have c: "0 < length s2"
    using i by auto
  have "length r = length s2 - i"
    using r by simp
  with a b c i(2) show ?thesis
    by arith
qed

function ParseDuration_loop :: "fracmul \<Rightarrow> string \<Rightarrow> nat \<Rightarrow> durError + nat" where
  "ParseDuration_loop fm s d =
     (if s = [] then Inr d
      else
        (case ParseDuration_segment fm s of
           Inl e \<Rightarrow> Inl e
         | Inr (v, rest) \<Rightarrow>
             (let d1 = (d + v) mod 2 ^ 64 in
              if d1 > 2 ^ 63 then Inl InvalidDuration
              else ParseDuration_loop fm rest d1)))"
  by pat_completeness auto
termination
  by (relation "measure (\<lambda>(fm, s, d). length s)")
     (auto simp: ParseDuration_segment_length)

text \<open>
  Every error return of \<open>ParseDuration\<close> returns the duration 0. For a negative
  sign the library returns \<open>-Duration(d)\<close> with \<open>d \<le> 2 ^ 63\<close>, which is \<open>- d\<close> also
  at \<open>d = 2 ^ 63\<close>, where the conversion and the negation both wrap.
\<close>

definition ParseDuration :: "fracmul \<Rightarrow> string \<Rightarrow> int \<times> durError option" where
  "ParseDuration fm orig =
     (let signed = (orig \<noteq> [] \<and> (hd orig = CHR ''-'' \<or> hd orig = CHR ''+''));
          neg = (orig \<noteq> [] \<and> hd orig = CHR ''-'');
          s = (if signed then tl orig else orig) in
      if s = ''0'' then (0, None)
      else if s = [] then (0, Some InvalidDuration)
      else
        (case ParseDuration_loop fm s 0 of
           Inl e \<Rightarrow> (0, Some e)
         | Inr d \<Rightarrow>
             if neg then (- int d, None)
             else if d > 2 ^ 63 - 1 then (0, Some InvalidDuration)
             else (int d, None)))"

subsection \<open>readFromEnvironment\<close>

text \<open>
  \<open>proxy.DefaultTimeout\<close> is declared in another package; it is the parameter
  \<open>DefaultTimeout\<close> of everything below.

  \<open>resetConfig\<close> is the test helper that puts the record back to the defaults.
  They are the defaults \<open>init\<close> registers the four flags with, so this is also
  the record \<open>flag.Parse\<close> leaves when no flag is given.
\<close>

definition resetConfig :: "int \<Rightarrow> HTTPProxyConfig" where
  "resetConfig DefaultTimeout =
     \<lparr>verbose = False, host = ''localhost'', port = defaultPort, timeout = DefaultTimeout\<rparr>"

text \<open>
  The two errors \<open>readFromEnvironment\<close> builds with \<open>fmt.Errorf\<close>, each carrying the
  offending value of its message.
\<close>

datatype error = InvalidPort string | InvalidTimeout string

text \<open>
  \<open>readFromEnvironment\<close> takes the environment and the record and returns the error
  (\<open>None\<close> for \<open>nil\<close>) with the record as the call leaves it. Its body is four
  \<open>if\<close> blocks, one per field, in the order host, verbose, port, timeout; each
  block is a definition here. A parser's value is assigned to the field before the
  error is looked at, as in \<open>httpConfig.port, err = strconv.Atoi(port)\<close>.
\<close>

definition readHost :: "environ \<Rightarrow> HTTPProxyConfig \<Rightarrow> HTTPProxyConfig" where
  "readHost env c =
     (if host c = ''localhost'' then
        (case env EnvHost of
           Some h \<Rightarrow> c\<lparr>host := h\<rparr>
         | None \<Rightarrow> c)
      else c)"

definition readVerbose :: "environ \<Rightarrow> HTTPProxyConfig \<Rightarrow> HTTPProxyConfig" where
  "readVerbose env c =
     (if \<not> verbose c then
        (case env EnvVerbose of
           Some v \<Rightarrow> c\<lparr>verbose := (v \<noteq> ''false'' \<and> v \<noteq> ''0'')\<rparr>
         | None \<Rightarrow> c)
      else c)"

definition readPort :: "environ \<Rightarrow> HTTPProxyConfig \<Rightarrow> error option \<times> HTTPProxyConfig" where
  "readPort env c =
     (if port c = defaultPort then
        (case env EnvPort of
           Some p \<Rightarrow>
             (case Atoi p of (n, err) \<Rightarrow>
                (if err \<noteq> None then Some (InvalidPort p) else None, c\<lparr>port := n\<rparr>))
         | None \<Rightarrow> (None, c))
      else (None, c))"

definition readTimeout ::
  "int \<Rightarrow> fracmul \<Rightarrow> environ \<Rightarrow> HTTPProxyConfig \<Rightarrow> error option \<times> HTTPProxyConfig" where
  "readTimeout DefaultTimeout fm env c =
     (if timeout c = DefaultTimeout then
        (case env EnvTimeout of
           Some t \<Rightarrow>
             (case ParseDuration fm t of (d, err) \<Rightarrow>
                (if err \<noteq> None then Some (InvalidTimeout t) else None, c\<lparr>timeout := d\<rparr>))
         | None \<Rightarrow> (None, c))
      else (None, c))"

definition readFromEnvironment ::
  "int \<Rightarrow> fracmul \<Rightarrow> environ \<Rightarrow> HTTPProxyConfig \<Rightarrow> error option \<times> HTTPProxyConfig" where
  "readFromEnvironment DefaultTimeout fm env c0 =
     (let c1 = readHost env c0;
          c2 = readVerbose env c1;
          (perr, c3) = readPort env c2 in
      if perr \<noteq> None then (perr, c3)
      else
        (let (terr, c4) = readTimeout DefaultTimeout fm env c3 in
         if terr \<noteq> None then (terr, c4) else (None, c4)))"

text \<open>
  For closed examples the fraction parameter is instantiated with the exact
  quotient, which the library's floating-point expression approximates. No example
  below has a fraction, so none depends on it.
\<close>

definition exactFraction :: fracmul where
  "exactFraction f unit scale = (f * unit) div scale"

subsection \<open>Facts about the parsers\<close>

lemma ParseDuration_error_zero:
  "snd (ParseDuration fm s) \<noteq> None \<Longrightarrow> fst (ParseDuration fm s) = 0"
  unfolding ParseDuration_def Let_def
  by (auto split: if_splits sum.splits)

lemmas Atoi_defs =
  Atoi_def ParseInt_def ParseUint_def ParseUint_step_def intSize_def maxUint64_def
  lower_def Atoi_digit_def Let_def

lemmas ParseDuration_defs =
  ParseDuration_def ParseDuration_segment_def leadingInt_def leadingInt_step_def
  leadingFraction_def leadingFraction_step_def unitMap_def digitByte_def Let_def

lemmas Env_defs = EnvHost_def EnvPort_def EnvTimeout_def EnvVerbose_def

lemma Atoi_9090: "Atoi ''9090'' = (9090, None)"
  by (simp add: Atoi_defs)

lemma Atoi_notanumber: "Atoi ''notanumber'' = (0, Some ErrSyntax)"
  by (simp add: Atoi_defs)

lemma ParseDuration_30s: "ParseDuration fm ''30s'' = (30000000000, None)"
  by (simp add: ParseDuration_defs)

lemma ParseDuration_notaduration:
  "ParseDuration fm ''notaduration'' = (0, Some InvalidDuration)"
  by (simp add: ParseDuration_defs)

subsection \<open>The four blocks, field by field\<close>

lemma Env_distinct:
  "EnvHost \<noteq> EnvPort" "EnvHost \<noteq> EnvTimeout" "EnvHost \<noteq> EnvVerbose"
  "EnvPort \<noteq> EnvHost" "EnvPort \<noteq> EnvTimeout" "EnvPort \<noteq> EnvVerbose"
  "EnvTimeout \<noteq> EnvHost" "EnvTimeout \<noteq> EnvPort" "EnvTimeout \<noteq> EnvVerbose"
  "EnvVerbose \<noteq> EnvHost" "EnvVerbose \<noteq> EnvPort" "EnvVerbose \<noteq> EnvTimeout"
  by (simp_all add: Env_defs)

lemma readHost_fields:
  "host (readHost env c) =
     (if host c = ''localhost'' then (case env EnvHost of Some h \<Rightarrow> h | None \<Rightarrow> host c)
      else host c)"
  "verbose (readHost env c) = verbose c"
  "port (readHost env c) = port c"
  "timeout (readHost env c) = timeout c"
  by (simp_all add: readHost_def split: option.splits)

lemma readVerbose_fields:
  "verbose (readVerbose env c) =
     (if \<not> verbose c
      then (case env EnvVerbose of Some v \<Rightarrow> v \<noteq> ''false'' \<and> v \<noteq> ''0'' | None \<Rightarrow> verbose c)
      else verbose c)"
  "host (readVerbose env c) = host c"
  "port (readVerbose env c) = port c"
  "timeout (readVerbose env c) = timeout c"
  by (simp_all add: readVerbose_def split: option.splits)

lemma readPort_fields:
  "port (snd (readPort env c)) =
     (if port c = defaultPort then (case env EnvPort of Some p \<Rightarrow> fst (Atoi p) | None \<Rightarrow> port c)
      else port c)"
  "host (snd (readPort env c)) = host c"
  "verbose (snd (readPort env c)) = verbose c"
  "timeout (snd (readPort env c)) = timeout c"
  by (simp_all add: readPort_def case_prod_beta split: option.splits)

lemma readPort_err:
  "fst (readPort env c) =
     (if port c = defaultPort
      then (case env EnvPort of
              Some p \<Rightarrow> if snd (Atoi p) \<noteq> None then Some (InvalidPort p) else None
            | None \<Rightarrow> None)
      else None)"
  by (simp add: readPort_def case_prod_beta split: option.splits)

lemma readTimeout_fields:
  "timeout (snd (readTimeout DT fm env c)) =
     (if timeout c = DT
      then (case env EnvTimeout of Some t \<Rightarrow> fst (ParseDuration fm t) | None \<Rightarrow> timeout c)
      else timeout c)"
  "host (snd (readTimeout DT fm env c)) = host c"
  "verbose (snd (readTimeout DT fm env c)) = verbose c"
  "port (snd (readTimeout DT fm env c)) = port c"
  by (simp_all add: readTimeout_def case_prod_beta split: option.splits)

lemma readTimeout_err:
  "fst (readTimeout DT fm env c) =
     (if timeout c = DT
      then (case env EnvTimeout of
              Some t \<Rightarrow> if snd (ParseDuration fm t) \<noteq> None then Some (InvalidTimeout t) else None
            | None \<Rightarrow> None)
      else None)"
  by (simp add: readTimeout_def case_prod_beta split: option.splits)

text \<open>The function as the composition of its blocks, without the local names.\<close>

lemma readFromEnvironment_alt:
  "readFromEnvironment DT fm env c =
     (if fst (readPort env (readVerbose env (readHost env c))) \<noteq> None
      then readPort env (readVerbose env (readHost env c))
      else readTimeout DT fm env (snd (readPort env (readVerbose env (readHost env c)))))"
proof -
  have "\<And>r :: error option \<times> HTTPProxyConfig.
          (let (terr, c4) = r in if terr \<noteq> None then (terr, c4) else (None, c4)) = r"
    by (auto simp: case_prod_beta)
  then show ?thesis
    unfolding readFromEnvironment_def Let_def by (simp add: case_prod_beta)
qed

text \<open>
  No block reads a field another block writes, so the error and every field of
  the result are given by the field's own block on the record the call started
  from.
\<close>

lemma readPort_err_frame:
  "fst (readPort env (readVerbose env (readHost env c))) = fst (readPort env c)"
  by (simp add: readPort_err readHost_fields readVerbose_fields)

lemma readTimeout_err_frame:
  "fst (readTimeout DT fm env (snd (readPort env (readVerbose env (readHost env c)))))
     = fst (readTimeout DT fm env c)"
  by (simp add: readTimeout_err readPort_fields readHost_fields readVerbose_fields)

lemma rfe_err:
  "fst (readFromEnvironment DT fm env c) =
     (if fst (readPort env c) \<noteq> None then fst (readPort env c)
      else fst (readTimeout DT fm env c))"
  by (simp add: readFromEnvironment_alt readPort_err_frame readTimeout_err_frame)

lemma rfe_host:
  "host (snd (readFromEnvironment DT fm env c)) = host (readHost env c)"
  by (simp add: readFromEnvironment_alt readPort_fields readTimeout_fields readVerbose_fields)

lemma rfe_verbose:
  "verbose (snd (readFromEnvironment DT fm env c)) = verbose (readVerbose env c)"
  by (simp add: readFromEnvironment_alt readPort_fields readTimeout_fields readVerbose_fields
      readHost_fields cong: option.case_cong)

lemma rfe_port:
  "port (snd (readFromEnvironment DT fm env c)) = port (snd (readPort env c))"
  by (simp add: readFromEnvironment_alt readPort_fields readTimeout_fields readVerbose_fields
      readHost_fields cong: option.case_cong)

lemma rfe_timeout:
  "timeout (snd (readFromEnvironment DT fm env c)) =
     (if fst (readPort env c) \<noteq> None then timeout c
      else timeout (snd (readTimeout DT fm env c)))"
  by (simp add: readFromEnvironment_alt readPort_err_frame readPort_fields readTimeout_fields
      readVerbose_fields readHost_fields cong: option.case_cong)

text \<open>Two records are equal when their four fields are.\<close>

lemma config_eqI:
  fixes a b :: HTTPProxyConfig
  assumes "verbose a = verbose b" "host a = host b" "port a = port b" "timeout a = timeout b"
  shows "a = b"
  using assms by (cases a, cases b) simp

text \<open>
  The result depends on the environment only through the variables of the fields
  that still hold their defaults.
\<close>

lemma rfe_env_cong:
  assumes "host c = ''localhost'' \<longrightarrow> env' EnvHost = env EnvHost"
      and "\<not> verbose c \<longrightarrow> env' EnvVerbose = env EnvVerbose"
      and "port c = defaultPort \<longrightarrow> env' EnvPort = env EnvPort"
      and "timeout c = DT \<longrightarrow> env' EnvTimeout = env EnvTimeout"
    shows "readFromEnvironment DT fm env' c = readFromEnvironment DT fm env c"
proof -
  have h: "readHost env' c = readHost env c"
    using assms(1) by (simp add: readHost_def)
  have v: "\<And>d. verbose d = verbose c \<Longrightarrow> readVerbose env' d = readVerbose env d"
    using assms(2) by (simp add: readVerbose_def)
  have p: "\<And>d. port d = port c \<Longrightarrow> readPort env' d = readPort env d"
    using assms(3) by (simp add: readPort_def)
  have t: "\<And>d. timeout d = timeout c \<Longrightarrow> readTimeout DT fm env' d = readTimeout DT fm env d"
    using assms(4) by (simp add: readTimeout_def)
  show ?thesis
    by (simp add: readFromEnvironment_alt h v p t readHost_fields readVerbose_fields
        readPort_fields)
qed

subsection \<open>The values Atoi returns\<close>

text \<open>
  The value of \<open>Atoi\<close> is always in the range of a 64-bit \<open>int\<close>. With an error it
  is 0 for a syntax error and the largest magnitude of the sign for a range error.
  Which error is reported follows the order of the scan, not the shape of the whole
  string: digits that overflow before a bad byte is reached give the range error.
\<close>

lemma Atoi_70000: "Atoi ''70000'' = (70000, None)"
  by (simp add: Atoi_defs)

lemma Atoi_2_63: "Atoi ''9223372036854775808'' = (9223372036854775807, Some ErrRange)"
  by (simp add: Atoi_defs)

lemma Atoi_overflow_before_bad_byte:
  "Atoi ''99999999999999999999999999x'' = (9223372036854775807, Some ErrRange)"
  by (simp add: Atoi_defs)

lemma Atoi_loop_bound:
  "Atoi_loop s n = Some m \<Longrightarrow> 0 \<le> n \<Longrightarrow> 0 \<le> m \<and> m < (n + 1) * 10 ^ length s"
proof (induction s arbitrary: n)
  case Nil
  then show ?case by simp
next
  case (Cons ch s)
  let ?d = "int (Atoi_digit ch)"
  from Cons.prems have d: "Atoi_digit ch \<le> 9" and r: "Atoi_loop s (n * 10 + ?d) = Some m"
    by (auto split: if_splits)
  have "0 \<le> n * 10 + ?d" using Cons.prems(2) by simp
  from Cons.IH [OF r this] have m: "0 \<le> m" "m < (n * 10 + ?d + 1) * 10 ^ length s"
    by simp_all
  have "(n * 10 + ?d + 1) * 10 ^ length s \<le> ((n + 1) * 10) * 10 ^ length s"
    using d by (intro mult_right_mono) simp_all
  with m(2) have "m < ((n + 1) * 10) * 10 ^ length s"
    by (rule less_le_trans)
  then have "m < (n + 1) * 10 ^ length (ch # s)"
    by (simp add: algebra_simps)
  with m(1) show ?case by simp
qed

lemma ParseInt_range: "- (2 ^ 63) \<le> fst (ParseInt s) \<and> fst (ParseInt s) < 2 ^ 63"
  unfolding ParseInt_def Let_def intSize_def
  by (auto split: list.splits prod.splits if_splits)

lemma Atoi_range: "- (2 ^ 63) \<le> fst (Atoi s) \<and> fst (Atoi s) < 2 ^ 63"
proof (cases "0 < length s \<and> length s < 19")
  case False
  then have "Atoi s = ParseInt s"
    by (auto simp: Atoi_def intSize_def)
  then show ?thesis using ParseInt_range by simp
next
  case True
  let ?signed = "hd s = CHR ''-'' \<or> hd s = CHR ''+''"
  let ?s1 = "if ?signed then tl s else s"
  have len: "length ?s1 \<le> 18" using True by auto
  show ?thesis
  proof (cases "Atoi_loop ?s1 0")
    case None
    then have "fst (Atoi s) = 0"
      using True by (auto simp: Atoi_def intSize_def Let_def)
    then show ?thesis by simp
  next
    case (Some m)
    from Atoi_loop_bound [OF Some] have m: "0 \<le> m" "m < 10 ^ length ?s1"
      by simp_all
    have "(10::int) ^ length ?s1 \<le> 10 ^ 18"
      using len by (intro power_increasing) simp_all
    with m have b: "0 \<le> m" "m < 10 ^ 18" by linarith+
    have "fst (Atoi s) = 0 \<or> fst (Atoi s) = m \<or> fst (Atoi s) = - m"
      using True Some by (auto simp: Atoi_def intSize_def Let_def)
    with b show ?thesis by auto
  qed
qed

lemma ParseInt_error_value:
  "snd (ParseInt s) = Some e \<Longrightarrow>
     (e = ErrSyntax \<and> fst (ParseInt s) = 0) \<or>
     (e = ErrRange \<and> (fst (ParseInt s) = 2 ^ 63 - 1 \<or> fst (ParseInt s) = - (2 ^ 63)))"
  unfolding ParseInt_def Let_def intSize_def
  by (cases e) (auto split: list.splits prod.splits if_splits)

lemma Atoi_error_value:
  assumes "snd (Atoi s) = Some e"
  shows "(e = ErrSyntax \<and> fst (Atoi s) = 0) \<or>
         (e = ErrRange \<and> (fst (Atoi s) = 2 ^ 63 - 1 \<or> fst (Atoi s) = - (2 ^ 63)))"
proof (cases "0 < length s \<and> length s < 19")
  case False
  then have "Atoi s = ParseInt s"
    by (auto simp: Atoi_def intSize_def)
  then show ?thesis using ParseInt_error_value assms by simp
next
  case True
  with assms show ?thesis
    by (auto simp: Atoi_def intSize_def Let_def split: option.splits if_splits)
qed

subsection \<open>Worked examples\<close>

text \<open>
  Calls computed block by block, with a default timeout of ten seconds: the
  environment of the test that sets all four variables, a malformed port next to a
  well-formed timeout (and the call repeated on the record that call leaves), and
  a malformed timeout.
\<close>

lemmas rfe_compute =
  readFromEnvironment_alt readHost_def readVerbose_def readPort_def readTimeout_def
  resetConfig_def defaultPort_def Env_distinct

lemma example_all_set:
  "readFromEnvironment 10000000000 exactFraction
     [EnvHost \<mapsto> ''0.0.0.0'', EnvPort \<mapsto> ''9090'', EnvVerbose \<mapsto> ''true'', EnvTimeout \<mapsto> ''30s'']
     (resetConfig 10000000000) =
   (None, \<lparr>verbose = True, host = ''0.0.0.0'', port = 9090, timeout = 30000000000\<rparr>)"
  by (simp add: rfe_compute Atoi_9090 ParseDuration_30s)

lemma example_bad_port_first:
  "readFromEnvironment 10000000000 exactFraction
     [EnvPort \<mapsto> ''notanumber'', EnvTimeout \<mapsto> ''30s''] (resetConfig 10000000000) =
   (Some (InvalidPort ''notanumber''),
    \<lparr>verbose = False, host = ''localhost'', port = 0, timeout = 10000000000\<rparr>)"
  by (simp add: rfe_compute Atoi_notanumber)

lemma example_bad_port_second:
  "readFromEnvironment 10000000000 exactFraction
     [EnvPort \<mapsto> ''notanumber'', EnvTimeout \<mapsto> ''30s'']
     \<lparr>verbose = False, host = ''localhost'', port = 0, timeout = 10000000000\<rparr> =
   (None, \<lparr>verbose = False, host = ''localhost'', port = 0, timeout = 30000000000\<rparr>)"
  by (simp add: rfe_compute ParseDuration_30s)

lemma example_bad_timeout:
  "readFromEnvironment 10000000000 exactFraction [EnvTimeout \<mapsto> ''notaduration'']
     (resetConfig 10000000000) =
   (Some (InvalidTimeout ''notaduration''),
    \<lparr>verbose = False, host = ''localhost'', port = 8080, timeout = 0\<rparr>)"
  by (simp add: rfe_compute ParseDuration_notaduration)

section \<open>The claims\<close>

subsection \<open>C1: flags win over the environment\<close>

text \<open>
  C1. For each of the four fields: when the field does not hold its compiled-in
  default as \<open>readFromEnvironment\<close> starts (a flag put another value there), the
  call leaves the field as it is, whatever the environment holds; and the field's
  environment variable is not consulted at all, that is, the whole result (error
  and record) is the same whatever value \<open>x\<close> the variable has, absent or present.
\<close>

theorem flags_win_over_environment:
  "(host c \<noteq> ''localhost'' \<longrightarrow>
      host (snd (readFromEnvironment DT fm env c)) = host c \<and>
      readFromEnvironment DT fm (env(EnvHost := x)) c = readFromEnvironment DT fm env c) \<and>
   (port c \<noteq> defaultPort \<longrightarrow>
      port (snd (readFromEnvironment DT fm env c)) = port c \<and>
      readFromEnvironment DT fm (env(EnvPort := x)) c = readFromEnvironment DT fm env c) \<and>
   (verbose c \<noteq> False \<longrightarrow>
      verbose (snd (readFromEnvironment DT fm env c)) = verbose c \<and>
      readFromEnvironment DT fm (env(EnvVerbose := x)) c = readFromEnvironment DT fm env c) \<and>
   (timeout c \<noteq> DT \<longrightarrow>
      timeout (snd (readFromEnvironment DT fm env c)) = timeout c \<and>
      readFromEnvironment DT fm (env(EnvTimeout := x)) c = readFromEnvironment DT fm env c)"
proof (intro conjI impI)
  assume "host c \<noteq> ''localhost''"
  then show "host (snd (readFromEnvironment DT fm env c)) = host c"
    by (simp add: rfe_host readHost_fields)
  show "readFromEnvironment DT fm (env(EnvHost := x)) c = readFromEnvironment DT fm env c"
    using \<open>host c \<noteq> ''localhost''\<close> by (intro rfe_env_cong) (simp_all add: Env_distinct)
next
  assume "port c \<noteq> defaultPort"
  then show "port (snd (readFromEnvironment DT fm env c)) = port c"
    by (simp add: rfe_port readPort_fields)
  show "readFromEnvironment DT fm (env(EnvPort := x)) c = readFromEnvironment DT fm env c"
    using \<open>port c \<noteq> defaultPort\<close> by (intro rfe_env_cong) (simp_all add: Env_distinct)
next
  assume "verbose c \<noteq> False"
  then show "verbose (snd (readFromEnvironment DT fm env c)) = verbose c"
    by (simp add: rfe_verbose readVerbose_fields)
  show "readFromEnvironment DT fm (env(EnvVerbose := x)) c = readFromEnvironment DT fm env c"
    using \<open>verbose c \<noteq> False\<close> by (intro rfe_env_cong) (simp_all add: Env_distinct)
next
  assume "timeout c \<noteq> DT"
  then show "timeout (snd (readFromEnvironment DT fm env c)) = timeout c"
    by (simp add: rfe_timeout readTimeout_fields)
  show "readFromEnvironment DT fm (env(EnvTimeout := x)) c = readFromEnvironment DT fm env c"
    using \<open>timeout c \<noteq> DT\<close> by (intro rfe_env_cong) (simp_all add: Env_distinct)
qed

text \<open>
  The flags \<open>-verbose -host flaghost -port 8888 -timeout 60s\<close> against an
  environment that sets all four variables to other values, with a default
  timeout of ten seconds: every field keeps the flag's value.
\<close>

theorem flags_win_over_environment_witness:
  "host \<lparr>verbose = True, host = ''flaghost'', port = 8888, timeout = 60000000000\<rparr> \<noteq> ''localhost'' \<and>
   port \<lparr>verbose = True, host = ''flaghost'', port = 8888, timeout = 60000000000\<rparr> \<noteq> defaultPort \<and>
   verbose \<lparr>verbose = True, host = ''flaghost'', port = 8888, timeout = 60000000000\<rparr> \<noteq> False \<and>
   timeout \<lparr>verbose = True, host = ''flaghost'', port = 8888, timeout = 60000000000\<rparr> \<noteq> 10000000000 \<and>
   host (snd (readFromEnvironment 10000000000 exactFraction
     [EnvHost \<mapsto> ''envhost'', EnvPort \<mapsto> ''9090'', EnvVerbose \<mapsto> ''false'', EnvTimeout \<mapsto> ''30s'']
     \<lparr>verbose = True, host = ''flaghost'', port = 8888, timeout = 60000000000\<rparr>)) = ''flaghost'' \<and>
   port (snd (readFromEnvironment 10000000000 exactFraction
     [EnvHost \<mapsto> ''envhost'', EnvPort \<mapsto> ''9090'', EnvVerbose \<mapsto> ''false'', EnvTimeout \<mapsto> ''30s'']
     \<lparr>verbose = True, host = ''flaghost'', port = 8888, timeout = 60000000000\<rparr>)) = 8888 \<and>
   verbose (snd (readFromEnvironment 10000000000 exactFraction
     [EnvHost \<mapsto> ''envhost'', EnvPort \<mapsto> ''9090'', EnvVerbose \<mapsto> ''false'', EnvTimeout \<mapsto> ''30s'']
     \<lparr>verbose = True, host = ''flaghost'', port = 8888, timeout = 60000000000\<rparr>)) = True \<and>
   timeout (snd (readFromEnvironment 10000000000 exactFraction
     [EnvHost \<mapsto> ''envhost'', EnvPort \<mapsto> ''9090'', EnvVerbose \<mapsto> ''false'', EnvTimeout \<mapsto> ''30s'']
     \<lparr>verbose = True, host = ''flaghost'', port = 8888, timeout = 60000000000\<rparr>)) = 60000000000"
  using flags_win_over_environment
    [of "\<lparr>verbose = True, host = ''flaghost'', port = 8888, timeout = 60000000000\<rparr>"
        10000000000 exactFraction
        "[EnvHost \<mapsto> ''envhost'', EnvPort \<mapsto> ''9090'', EnvVerbose \<mapsto> ''false'', EnvTimeout \<mapsto> ''30s'']"]
  by (simp add: defaultPort_def)

subsection \<open>C2: a field that holds its default takes the environment's value\<close>

text \<open>
  C2, as amended. For the host, verbose and port fields: when the field holds its
  compiled-in default as \<open>readFromEnvironment\<close> starts (also when a flag put that
  very value there: the record does not tell the two apart) and its environment
  variable is present with a well-formed value, the field after the call is the
  value parsed from the environment, whatever the call returns: the host verbatim,
  verbose by the rule of C3, the port as \<open>Atoi\<close> reads it. For the timeout field
  the same holds, with the value \<open>ParseDuration\<close> reads, when the call returns
  \<open>nil\<close>.
\<close>

theorem environment_overrides_default_valued_field:
  "(host c = ''localhost'' \<and> env EnvHost = Some h \<longrightarrow>
      host (snd (readFromEnvironment DT fm env c)) = h) \<and>
   (verbose c = False \<and> env EnvVerbose = Some v \<longrightarrow>
      verbose (snd (readFromEnvironment DT fm env c)) = (v \<noteq> ''false'' \<and> v \<noteq> ''0'')) \<and>
   (port c = defaultPort \<and> env EnvPort = Some p \<and> Atoi p = (n, None) \<longrightarrow>
      port (snd (readFromEnvironment DT fm env c)) = n) \<and>
   (timeout c = DT \<and> env EnvTimeout = Some t \<and> ParseDuration fm t = (d, None) \<and>
    fst (readFromEnvironment DT fm env c) = None \<longrightarrow>
      timeout (snd (readFromEnvironment DT fm env c)) = d)"
  by (auto simp: rfe_host rfe_verbose rfe_port rfe_timeout rfe_err
      readHost_fields readVerbose_fields readPort_fields readTimeout_fields)

text \<open>
  The record at its defaults (as after \<open>-port 8080\<close>) and the four variables set
  to \<open>envhost\<close>, \<open>9090\<close>, \<open>true\<close> and \<open>30s\<close>.
\<close>

theorem environment_overrides_default_valued_field_witness:
  "host (resetConfig 10000000000) = ''localhost'' \<and>
   verbose (resetConfig 10000000000) = False \<and>
   port (resetConfig 10000000000) = defaultPort \<and>
   timeout (resetConfig 10000000000) = 10000000000 \<and>
   Atoi ''9090'' = (9090, None) \<and>
   ParseDuration exactFraction ''30s'' = (30000000000, None) \<and>
   fst (readFromEnvironment 10000000000 exactFraction
     [EnvHost \<mapsto> ''envhost'', EnvPort \<mapsto> ''9090'', EnvVerbose \<mapsto> ''true'', EnvTimeout \<mapsto> ''30s'']
     (resetConfig 10000000000)) = None \<and>
   host (snd (readFromEnvironment 10000000000 exactFraction
     [EnvHost \<mapsto> ''envhost'', EnvPort \<mapsto> ''9090'', EnvVerbose \<mapsto> ''true'', EnvTimeout \<mapsto> ''30s'']
     (resetConfig 10000000000))) = ''envhost'' \<and>
   verbose (snd (readFromEnvironment 10000000000 exactFraction
     [EnvHost \<mapsto> ''envhost'', EnvPort \<mapsto> ''9090'', EnvVerbose \<mapsto> ''true'', EnvTimeout \<mapsto> ''30s'']
     (resetConfig 10000000000))) = True \<and>
   port (snd (readFromEnvironment 10000000000 exactFraction
     [EnvHost \<mapsto> ''envhost'', EnvPort \<mapsto> ''9090'', EnvVerbose \<mapsto> ''true'', EnvTimeout \<mapsto> ''30s'']
     (resetConfig 10000000000))) = 9090 \<and>
   timeout (snd (readFromEnvironment 10000000000 exactFraction
     [EnvHost \<mapsto> ''envhost'', EnvPort \<mapsto> ''9090'', EnvVerbose \<mapsto> ''true'', EnvTimeout \<mapsto> ''30s'']
     (resetConfig 10000000000))) = 30000000000"
proof -
  let ?env = "[EnvHost \<mapsto> ''envhost'', EnvPort \<mapsto> ''9090'', EnvVerbose \<mapsto> ''true'', EnvTimeout \<mapsto> ''30s'']"
  have e: "?env EnvHost = Some ''envhost''" "?env EnvPort = Some ''9090''"
    "?env EnvVerbose = Some ''true''" "?env EnvTimeout = Some ''30s''"
    by (simp_all add: Env_distinct)
  have ok: "fst (readFromEnvironment 10000000000 exactFraction ?env (resetConfig 10000000000)) = None"
    by (simp add: rfe_err readPort_err readTimeout_err Env_distinct Atoi_9090 ParseDuration_30s
        resetConfig_def)
  show ?thesis
    using environment_overrides_default_valued_field
      [of "resetConfig 10000000000" ?env "''envhost''" 10000000000 exactFraction "''true''"
          "''9090''" 9090 "''30s''" 30000000000]
      e ok Atoi_9090 ParseDuration_30s [of exactFraction]
    by (simp add: resetConfig_def)
qed

text \<open>
  C2 as stated fails for the timeout field. On the default record with a
  malformed port and \<open>TESLA_HTTP_PROXY_TIMEOUT=30s\<close> the timeout holds its default
  and its variable is present and well-formed, yet the call returns the port error
  before the timeout block and the timeout is still ten seconds.
\<close>

theorem timeout_not_overridden_counterexample:
  "timeout (resetConfig 10000000000) = 10000000000 \<and>
   [EnvPort \<mapsto> ''notanumber'', EnvTimeout \<mapsto> ''30s''] EnvTimeout = Some ''30s'' \<and>
   ParseDuration exactFraction ''30s'' = (30000000000, None) \<and>
   fst (readFromEnvironment 10000000000 exactFraction
     [EnvPort \<mapsto> ''notanumber'', EnvTimeout \<mapsto> ''30s''] (resetConfig 10000000000))
     = Some (InvalidPort ''notanumber'') \<and>
   timeout (snd (readFromEnvironment 10000000000 exactFraction
     [EnvPort \<mapsto> ''notanumber'', EnvTimeout \<mapsto> ''30s''] (resetConfig 10000000000)))
     = 10000000000 \<and>
   timeout (snd (readFromEnvironment 10000000000 exactFraction
     [EnvPort \<mapsto> ''notanumber'', EnvTimeout \<mapsto> ''30s''] (resetConfig 10000000000)))
     \<noteq> 30000000000"
proof -
  have d: "timeout (resetConfig 10000000000) = 10000000000"
    by (simp add: resetConfig_def)
  show ?thesis
    by (simp add: example_bad_port_first ParseDuration_30s Env_distinct d)
qed

subsection \<open>C3: parsing of TESLA_VERBOSE\<close>

text \<open>
  C3. When the verbose field is false and \<open>TESLA_VERBOSE\<close> is present with value
  \<open>v\<close>, the call sets verbose to false exactly when \<open>v\<close> is \<open>false\<close> or \<open>0\<close> and
  to true for every other value; when the variable is absent the field is left as it
  was.
\<close>

theorem verbose_parsing:
  "(verbose c = False \<and> env EnvVerbose = Some v \<longrightarrow>
      verbose (snd (readFromEnvironment DT fm env c)) = (\<not> (v = ''false'' \<or> v = ''0''))) \<and>
   (env EnvVerbose = None \<longrightarrow>
      verbose (snd (readFromEnvironment DT fm env c)) = verbose c)"
  by (auto simp: rfe_verbose readVerbose_fields)

text \<open>
  The table of the test, with \<open>no\<close> and the empty string, and the absent variable
  on a false and on a true field.
\<close>

theorem verbose_parsing_witness:
  "verbose (resetConfig 10000000000) = False \<and>
   verbose (snd (readFromEnvironment 10000000000 exactFraction [EnvVerbose \<mapsto> ''true'']
     (resetConfig 10000000000))) = True \<and>
   verbose (snd (readFromEnvironment 10000000000 exactFraction [EnvVerbose \<mapsto> ''1'']
     (resetConfig 10000000000))) = True \<and>
   verbose (snd (readFromEnvironment 10000000000 exactFraction [EnvVerbose \<mapsto> ''yes'']
     (resetConfig 10000000000))) = True \<and>
   verbose (snd (readFromEnvironment 10000000000 exactFraction [EnvVerbose \<mapsto> ''no'']
     (resetConfig 10000000000))) = True \<and>
   verbose (snd (readFromEnvironment 10000000000 exactFraction [EnvVerbose \<mapsto> ''anything'']
     (resetConfig 10000000000))) = True \<and>
   verbose (snd (readFromEnvironment 10000000000 exactFraction [EnvVerbose \<mapsto> '''']
     (resetConfig 10000000000))) = True \<and>
   verbose (snd (readFromEnvironment 10000000000 exactFraction [EnvVerbose \<mapsto> ''false'']
     (resetConfig 10000000000))) = False \<and>
   verbose (snd (readFromEnvironment 10000000000 exactFraction [EnvVerbose \<mapsto> ''0'']
     (resetConfig 10000000000))) = False \<and>
   verbose (snd (readFromEnvironment 10000000000 exactFraction Map.empty
     (resetConfig 10000000000))) = verbose (resetConfig 10000000000) \<and>
   verbose (snd (readFromEnvironment 10000000000 exactFraction Map.empty
     \<lparr>verbose = True, host = ''localhost'', port = 8080, timeout = 10000000000\<rparr>)) = True"
  using
    verbose_parsing [of "resetConfig 10000000000" "[EnvVerbose \<mapsto> ''true'']" "''true''"
      10000000000 exactFraction]
    verbose_parsing [of "resetConfig 10000000000" "[EnvVerbose \<mapsto> ''1'']" "''1''"
      10000000000 exactFraction]
    verbose_parsing [of "resetConfig 10000000000" "[EnvVerbose \<mapsto> ''yes'']" "''yes''"
      10000000000 exactFraction]
    verbose_parsing [of "resetConfig 10000000000" "[EnvVerbose \<mapsto> ''no'']" "''no''"
      10000000000 exactFraction]
    verbose_parsing [of "resetConfig 10000000000" "[EnvVerbose \<mapsto> ''anything'']" "''anything''"
      10000000000 exactFraction]
    verbose_parsing [of "resetConfig 10000000000" "[EnvVerbose \<mapsto> '''']" "''''"
      10000000000 exactFraction]
    verbose_parsing [of "resetConfig 10000000000" "[EnvVerbose \<mapsto> ''false'']" "''false''"
      10000000000 exactFraction]
    verbose_parsing [of "resetConfig 10000000000" "[EnvVerbose \<mapsto> ''0'']" "''0''"
      10000000000 exactFraction]
    verbose_parsing [of "resetConfig 10000000000" Map.empty undefined 10000000000 exactFraction]
    verbose_parsing [of "\<lparr>verbose = True, host = ''localhost'', port = 8080, timeout = 10000000000\<rparr>"
      Map.empty undefined 10000000000 exactFraction]
  by (simp add: resetConfig_def)

subsection \<open>C4: when an error is returned\<close>

text \<open>
  C4. From the record at its defaults, \<open>readFromEnvironment\<close> returns an error if
  and only if \<open>TESLA_HTTP_PROXY_PORT\<close> is present with a value \<open>strconv.Atoi\<close>
  rejects, or \<open>TESLA_HTTP_PROXY_TIMEOUT\<close> is present with a value
  \<open>time.ParseDuration\<close> rejects. The host and verbose variables never matter for
  the error: from any record, giving them any other values \<open>x\<close> and \<open>y\<close> (absent or
  present) leaves the returned error the same.
\<close>

theorem error_iff_port_or_timeout_malformed:
  "(fst (readFromEnvironment DT fm env (resetConfig DT)) \<noteq> None \<longleftrightarrow>
      (\<exists>p. env EnvPort = Some p \<and> snd (Atoi p) \<noteq> None) \<or>
      (\<exists>t. env EnvTimeout = Some t \<and> snd (ParseDuration fm t) \<noteq> None)) \<and>
   fst (readFromEnvironment DT fm (env(EnvHost := x, EnvVerbose := y)) c) =
     fst (readFromEnvironment DT fm env c)"
proof
  show "fst (readFromEnvironment DT fm env (resetConfig DT)) \<noteq> None \<longleftrightarrow>
      (\<exists>p. env EnvPort = Some p \<and> snd (Atoi p) \<noteq> None) \<or>
      (\<exists>t. env EnvTimeout = Some t \<and> snd (ParseDuration fm t) \<noteq> None)"
    by (auto simp: rfe_err readPort_err readTimeout_err resetConfig_def split: option.splits)
  show "fst (readFromEnvironment DT fm (env(EnvHost := x, EnvVerbose := y)) c) =
     fst (readFromEnvironment DT fm env c)"
    by (auto simp: rfe_err readPort_err readTimeout_err Env_distinct)
qed

text \<open>
  The two malformed values of the tests, and an environment with odd host and
  verbose values and well-formed port and timeout.
\<close>

theorem error_iff_port_or_timeout_malformed_witness:
  "fst (readFromEnvironment 10000000000 exactFraction [EnvPort \<mapsto> ''notanumber'']
     (resetConfig 10000000000)) \<noteq> None \<and>
   fst (readFromEnvironment 10000000000 exactFraction [EnvTimeout \<mapsto> ''notaduration'']
     (resetConfig 10000000000)) \<noteq> None \<and>
   fst (readFromEnvironment 10000000000 exactFraction
     [EnvHost \<mapsto> ''not a host'', EnvVerbose \<mapsto> ''not a bool'', EnvPort \<mapsto> ''9090'',
      EnvTimeout \<mapsto> ''30s'']
     (resetConfig 10000000000)) = None"
proof -
  have a: "\<exists>p. [EnvPort \<mapsto> ''notanumber''] EnvPort = Some p \<and> snd (Atoi p) \<noteq> None"
    by (simp add: Atoi_notanumber)
  have b: "\<exists>t. [EnvTimeout \<mapsto> ''notaduration''] EnvTimeout = Some t \<and>
             snd (ParseDuration exactFraction t) \<noteq> None"
    by (simp add: ParseDuration_notaduration)
  have c: "\<not> ((\<exists>p. [EnvHost \<mapsto> ''not a host'', EnvVerbose \<mapsto> ''not a bool'', EnvPort \<mapsto> ''9090'',
                     EnvTimeout \<mapsto> ''30s''] EnvPort = Some p \<and> snd (Atoi p) \<noteq> None) \<or>
              (\<exists>t. [EnvHost \<mapsto> ''not a host'', EnvVerbose \<mapsto> ''not a bool'', EnvPort \<mapsto> ''9090'',
                     EnvTimeout \<mapsto> ''30s''] EnvTimeout = Some t \<and>
                   snd (ParseDuration exactFraction t) \<noteq> None))"
    by (simp add: Env_distinct Atoi_9090 ParseDuration_30s)
  show ?thesis
    using a b c
      error_iff_port_or_timeout_malformed [of 10000000000 exactFraction "[EnvPort \<mapsto> ''notanumber'']"]
      error_iff_port_or_timeout_malformed [of 10000000000 exactFraction "[EnvTimeout \<mapsto> ''notaduration'']"]
      error_iff_port_or_timeout_malformed [of 10000000000 exactFraction
        "[EnvHost \<mapsto> ''not a host'', EnvVerbose \<mapsto> ''not a bool'', EnvPort \<mapsto> ''9090'',
          EnvTimeout \<mapsto> ''30s'']"]
    by blast
qed

subsection \<open>C5: what a malformed port leaves untouched\<close>

text \<open>
  C5, as amended. When the port field holds its default and
  \<open>TESLA_HTTP_PROXY_PORT\<close> is present with a value \<open>Atoi\<close> rejects,
  \<open>readFromEnvironment\<close> returns the port error and the timeout field is as before
  the call, also when \<open>TESLA_HTTP_PROXY_TIMEOUT\<close> is present: the timeout block is
  the only one after the port block. The host and verbose blocks run before it, so
  these two fields are what their own blocks make of them.
\<close>

theorem invalid_port_leaves_timeout:
  assumes "port c = defaultPort" and "env EnvPort = Some p" and "snd (Atoi p) \<noteq> None"
  shows "fst (readFromEnvironment DT fm env c) = Some (InvalidPort p) \<and>
         timeout (snd (readFromEnvironment DT fm env c)) = timeout c \<and>
         host (snd (readFromEnvironment DT fm env c)) = host (readHost env c) \<and>
         verbose (snd (readFromEnvironment DT fm env c)) = verbose (readVerbose env c)"
  using assms by (auto simp: rfe_err rfe_timeout rfe_host rfe_verbose readPort_err)

text \<open>
  The default record with \<open>TESLA_VERBOSE=true\<close>, a malformed port and
  \<open>TESLA_HTTP_PROXY_TIMEOUT=30s\<close>: the timeout stays at ten seconds.
\<close>

theorem invalid_port_leaves_timeout_witness:
  "port (resetConfig 10000000000) = defaultPort \<and>
   [EnvVerbose \<mapsto> ''true'', EnvPort \<mapsto> ''notanumber'', EnvTimeout \<mapsto> ''30s''] EnvPort
     = Some ''notanumber'' \<and>
   snd (Atoi ''notanumber'') \<noteq> None \<and>
   fst (readFromEnvironment 10000000000 exactFraction
     [EnvVerbose \<mapsto> ''true'', EnvPort \<mapsto> ''notanumber'', EnvTimeout \<mapsto> ''30s'']
     (resetConfig 10000000000)) = Some (InvalidPort ''notanumber'') \<and>
   timeout (snd (readFromEnvironment 10000000000 exactFraction
     [EnvVerbose \<mapsto> ''true'', EnvPort \<mapsto> ''notanumber'', EnvTimeout \<mapsto> ''30s'']
     (resetConfig 10000000000))) = 10000000000"
proof -
  have a: "port (resetConfig 10000000000) = defaultPort"
    by (simp add: resetConfig_def)
  have b: "[EnvVerbose \<mapsto> ''true'', EnvPort \<mapsto> ''notanumber'', EnvTimeout \<mapsto> ''30s''] EnvPort
             = Some ''notanumber''"
    by (simp add: Env_distinct)
  have c: "snd (Atoi ''notanumber'') \<noteq> None"
    by (simp add: Atoi_notanumber)
  show ?thesis
    using a b c
      invalid_port_leaves_timeout
        [of "resetConfig 10000000000"
            "[EnvVerbose \<mapsto> ''true'', EnvPort \<mapsto> ''notanumber'', EnvTimeout \<mapsto> ''30s'']"
            "''notanumber''" 10000000000 exactFraction]
    by (simp add: resetConfig_def)
qed

text \<open>
  C5 as stated fails for the verbose field: at the same input the call returns the
  port error and has already set verbose from false to true.
\<close>

theorem invalid_port_verbose_counterexample:
  "port (resetConfig 10000000000) = defaultPort \<and>
   [EnvVerbose \<mapsto> ''true'', EnvPort \<mapsto> ''notanumber'', EnvTimeout \<mapsto> ''30s''] EnvPort
     = Some ''notanumber'' \<and>
   Atoi ''notanumber'' = (0, Some ErrSyntax) \<and>
   fst (readFromEnvironment 10000000000 exactFraction
     [EnvVerbose \<mapsto> ''true'', EnvPort \<mapsto> ''notanumber'', EnvTimeout \<mapsto> ''30s'']
     (resetConfig 10000000000)) = Some (InvalidPort ''notanumber'') \<and>
   verbose (resetConfig 10000000000) = False \<and>
   verbose (snd (readFromEnvironment 10000000000 exactFraction
     [EnvVerbose \<mapsto> ''true'', EnvPort \<mapsto> ''notanumber'', EnvTimeout \<mapsto> ''30s'']
     (resetConfig 10000000000))) = True"
  by (simp add: rfe_err rfe_verbose readPort_err readVerbose_fields Env_distinct Atoi_notanumber
      resetConfig_def)

subsection \<open>C6: the defaults are preserved\<close>

text \<open>
  C6. When none of the four variables is present and the record holds the defaults
  (no flag given), \<open>readFromEnvironment\<close> returns \<open>nil\<close> and the record is
  host \<open>localhost\<close>, port 8080, timeout \<open>DefaultTimeout\<close>, verbose false.
\<close>

theorem defaults_preserved:
  assumes "env EnvHost = None" "env EnvPort = None" "env EnvTimeout = None" "env EnvVerbose = None"
  shows "readFromEnvironment DT fm env (resetConfig DT) =
           (None, \<lparr>verbose = False, host = ''localhost'', port = 8080, timeout = DT\<rparr>)"
  using assms
  by (simp add: readFromEnvironment_alt readHost_def readVerbose_def readPort_def readTimeout_def
      resetConfig_def defaultPort_def)

text \<open>The empty environment.\<close>

theorem defaults_preserved_witness:
  "Map.empty EnvHost = (None :: string option) \<and> Map.empty EnvPort = (None :: string option) \<and>
   Map.empty EnvTimeout = (None :: string option) \<and> Map.empty EnvVerbose = (None :: string option) \<and>
   readFromEnvironment 10000000000 exactFraction Map.empty (resetConfig 10000000000) =
     (None, \<lparr>verbose = False, host = ''localhost'', port = 8080, timeout = 10000000000\<rparr>)"
  using defaults_preserved [of Map.empty 10000000000 exactFraction]
  by simp

subsection \<open>C7: resolution from the environment alone\<close>

text \<open>
  C7. From the record at its defaults, when the port and timeout variables, where
  present, are well-formed, \<open>readFromEnvironment\<close> returns \<open>nil\<close> and every field
  whose variable is present holds the parsed value: the host string verbatim, the
  integer \<open>Atoi\<close> reads, the duration \<open>ParseDuration\<close> reads, verbose by the rule
  of C3; a field whose variable is absent keeps its default.
\<close>

theorem environment_only_resolution:
  assumes "\<forall>p. env EnvPort = Some p \<longrightarrow> snd (Atoi p) = None"
      and "\<forall>t. env EnvTimeout = Some t \<longrightarrow> snd (ParseDuration fm t) = None"
  shows "readFromEnvironment DT fm env (resetConfig DT) =
           (None,
            \<lparr>verbose = (case env EnvVerbose of Some v \<Rightarrow> v \<noteq> ''false'' \<and> v \<noteq> ''0'' | None \<Rightarrow> False),
             host = (case env EnvHost of Some h \<Rightarrow> h | None \<Rightarrow> ''localhost''),
             port = (case env EnvPort of Some p \<Rightarrow> fst (Atoi p) | None \<Rightarrow> 8080),
             timeout = (case env EnvTimeout of Some t \<Rightarrow> fst (ParseDuration fm t) | None \<Rightarrow> DT)\<rparr>)"
proof (rule prod_eqI)
  have p: "fst (readPort env (resetConfig DT)) = None"
    using assms(1) by (simp add: readPort_err split: option.splits)
  have t: "fst (readTimeout DT fm env (resetConfig DT)) = None"
    using assms(2) by (simp add: readTimeout_err split: option.splits)
  show "fst (readFromEnvironment DT fm env (resetConfig DT)) = fst (None, \<lparr>verbose = (case env EnvVerbose of Some v \<Rightarrow> v \<noteq> ''false'' \<and> v \<noteq> ''0'' | None \<Rightarrow> False),
             host = (case env EnvHost of Some h \<Rightarrow> h | None \<Rightarrow> ''localhost''),
             port = (case env EnvPort of Some p \<Rightarrow> fst (Atoi p) | None \<Rightarrow> 8080),
             timeout = (case env EnvTimeout of Some t \<Rightarrow> fst (ParseDuration fm t) | None \<Rightarrow> DT)\<rparr>)"
    using p t by (simp add: rfe_err)
  show "snd (readFromEnvironment DT fm env (resetConfig DT)) = snd (None, \<lparr>verbose = (case env EnvVerbose of Some v \<Rightarrow> v \<noteq> ''false'' \<and> v \<noteq> ''0'' | None \<Rightarrow> False),
             host = (case env EnvHost of Some h \<Rightarrow> h | None \<Rightarrow> ''localhost''),
             port = (case env EnvPort of Some p \<Rightarrow> fst (Atoi p) | None \<Rightarrow> 8080),
             timeout = (case env EnvTimeout of Some t \<Rightarrow> fst (ParseDuration fm t) | None \<Rightarrow> DT)\<rparr>)"
    using p
    by (intro config_eqI)
       (simp_all add: rfe_host rfe_verbose rfe_port rfe_timeout readHost_fields readVerbose_fields
          readPort_fields readTimeout_fields resetConfig_def defaultPort_def cong: option.case_cong)
qed

text \<open>
  The environment of the test: \<open>9090\<close> gives the port 9090 and \<open>30s\<close> thirty
  seconds, in nanoseconds.
\<close>

theorem environment_only_resolution_witness:
  "readFromEnvironment 10000000000 exactFraction
     [EnvHost \<mapsto> ''0.0.0.0'', EnvPort \<mapsto> ''9090'', EnvVerbose \<mapsto> ''true'', EnvTimeout \<mapsto> ''30s'']
     (resetConfig 10000000000) =
   (None, \<lparr>verbose = True, host = ''0.0.0.0'', port = 9090, timeout = 30000000000\<rparr>)"
proof -
  let ?env = "[EnvHost \<mapsto> ''0.0.0.0'', EnvPort \<mapsto> ''9090'', EnvVerbose \<mapsto> ''true'', EnvTimeout \<mapsto> ''30s'']"
  have a: "\<forall>p. ?env EnvPort = Some p \<longrightarrow> snd (Atoi p) = None"
    by (simp add: Env_distinct Atoi_9090)
  have b: "\<forall>t. ?env EnvTimeout = Some t \<longrightarrow> snd (ParseDuration exactFraction t) = None"
    by (simp add: Env_distinct ParseDuration_30s)
  show ?thesis
    by (subst environment_only_resolution [OF a b])
       (simp add: Env_distinct Atoi_9090 ParseDuration_30s)
qed

subsection \<open>C8: running the resolution twice\<close>

text \<open>
  C8, as amended. When \<open>readFromEnvironment\<close> returns \<open>nil\<close>, running it again in
  the same environment on the record it left returns \<open>nil\<close> and the same record.
\<close>

theorem idempotent_after_success:
  assumes "fst (readFromEnvironment DT fm env c) = None"
  shows "readFromEnvironment DT fm env (snd (readFromEnvironment DT fm env c)) =
           readFromEnvironment DT fm env c"
proof -
  let ?c' = "snd (readFromEnvironment DT fm env c)"
  have p: "fst (readPort env c) = None" and t: "fst (readTimeout DT fm env c) = None"
    using assms by (auto simp: rfe_err split: if_splits)
  have p': "fst (readPort env ?c') = None"
    using p by (auto simp: readPort_err rfe_port readPort_fields split: option.splits if_splits)
  have t': "fst (readTimeout DT fm env ?c') = None"
    using p t by (auto simp: readTimeout_err rfe_timeout readTimeout_fields split: option.splits if_splits)
  have e: "fst (readFromEnvironment DT fm env ?c') = fst (readFromEnvironment DT fm env c)"
    using p t p' t' by (simp add: rfe_err)
  have h: "host (snd (readFromEnvironment DT fm env ?c')) = host ?c'"
    by (auto simp: rfe_host readHost_fields split: option.splits)
  have v: "verbose (snd (readFromEnvironment DT fm env ?c')) = verbose ?c'"
    by (auto simp: rfe_verbose readVerbose_fields split: option.splits)
  have q: "port (snd (readFromEnvironment DT fm env ?c')) = port ?c'"
    by (auto simp: rfe_port readPort_fields split: option.splits)
  have u: "timeout (snd (readFromEnvironment DT fm env ?c')) = timeout ?c'"
    using p p' by (auto simp: rfe_timeout [of DT fm env ?c'] rfe_timeout [of DT fm env c] readTimeout_fields split: option.splits)
  have "snd (readFromEnvironment DT fm env ?c') = ?c'"
    using h v q u by (intro config_eqI) simp_all
  with e show ?thesis
    by (simp add: prod_eq_iff)
qed

text \<open>The environment of the test that sets all four variables.\<close>

theorem idempotent_after_success_witness:
  "fst (readFromEnvironment 10000000000 exactFraction
     [EnvHost \<mapsto> ''0.0.0.0'', EnvPort \<mapsto> ''9090'', EnvVerbose \<mapsto> ''true'', EnvTimeout \<mapsto> ''30s'']
     (resetConfig 10000000000)) = None \<and>
   readFromEnvironment 10000000000 exactFraction
     [EnvHost \<mapsto> ''0.0.0.0'', EnvPort \<mapsto> ''9090'', EnvVerbose \<mapsto> ''true'', EnvTimeout \<mapsto> ''30s'']
     (snd (readFromEnvironment 10000000000 exactFraction
       [EnvHost \<mapsto> ''0.0.0.0'', EnvPort \<mapsto> ''9090'', EnvVerbose \<mapsto> ''true'', EnvTimeout \<mapsto> ''30s'']
       (resetConfig 10000000000))) =
   (None, \<lparr>verbose = True, host = ''0.0.0.0'', port = 9090, timeout = 30000000000\<rparr>)"
proof -
  have ok: "fst (readFromEnvironment 10000000000 exactFraction
     [EnvHost \<mapsto> ''0.0.0.0'', EnvPort \<mapsto> ''9090'', EnvVerbose \<mapsto> ''true'', EnvTimeout \<mapsto> ''30s'']
     (resetConfig 10000000000)) = None"
    by (simp add: example_all_set)
  show ?thesis
    using ok idempotent_after_success [OF ok]
    by (simp add: example_all_set)
qed

text \<open>
  C8 as stated fails after an error. With a malformed port and
  \<open>TESLA_HTTP_PROXY_TIMEOUT=30s\<close> the first call returns the port error and leaves
  the port at 0 and the timeout at its default; the port no longer equals 8080, so
  the second call skips the port, returns \<open>nil\<close> and sets the timeout.
\<close>

theorem idempotence_counterexample:
  "fst (readFromEnvironment 10000000000 exactFraction
     [EnvPort \<mapsto> ''notanumber'', EnvTimeout \<mapsto> ''30s''] (resetConfig 10000000000))
     = Some (InvalidPort ''notanumber'') \<and>
   fst (readFromEnvironment 10000000000 exactFraction
     [EnvPort \<mapsto> ''notanumber'', EnvTimeout \<mapsto> ''30s'']
     (snd (readFromEnvironment 10000000000 exactFraction
       [EnvPort \<mapsto> ''notanumber'', EnvTimeout \<mapsto> ''30s''] (resetConfig 10000000000))))
     = None \<and>
   timeout (snd (readFromEnvironment 10000000000 exactFraction
     [EnvPort \<mapsto> ''notanumber'', EnvTimeout \<mapsto> ''30s''] (resetConfig 10000000000)))
     = 10000000000 \<and>
   timeout (snd (readFromEnvironment 10000000000 exactFraction
     [EnvPort \<mapsto> ''notanumber'', EnvTimeout \<mapsto> ''30s'']
     (snd (readFromEnvironment 10000000000 exactFraction
       [EnvPort \<mapsto> ''notanumber'', EnvTimeout \<mapsto> ''30s''] (resetConfig 10000000000)))))
     = 30000000000"
  by (simp add: example_bad_port_first example_bad_port_second)

subsection \<open>C9: the range of the port\<close>

text \<open>
  C9, as amended. After \<open>readFromEnvironment\<close> returns \<open>nil\<close> the port is the value
  the record held when that differs from 8080, otherwise the integer \<open>Atoi\<close> read
  from \<open>TESLA_HTTP_PROXY_PORT\<close> without error when the variable is present, and
  8080 when it is absent. Nothing confines it to 0 to 65535: it is in the range of
  a 64-bit \<open>int\<close> whenever the record's value was.
\<close>

theorem port_after_resolution:
  assumes "fst (readFromEnvironment DT fm env c) = None"
  shows "port (snd (readFromEnvironment DT fm env c)) =
           (if port c = defaultPort
            then (case env EnvPort of Some p \<Rightarrow> fst (Atoi p) | None \<Rightarrow> defaultPort)
            else port c) \<and>
         (port c = defaultPort \<longrightarrow> (\<forall>p. env EnvPort = Some p \<longrightarrow> snd (Atoi p) = None)) \<and>
         (- (2 ^ 63) \<le> port c \<and> port c < 2 ^ 63 \<longrightarrow>
            - (2 ^ 63) \<le> port (snd (readFromEnvironment DT fm env c)) \<and>
            port (snd (readFromEnvironment DT fm env c)) < 2 ^ 63)"
proof (intro conjI impI allI)
  show "port (snd (readFromEnvironment DT fm env c)) =
           (if port c = defaultPort
            then (case env EnvPort of Some p \<Rightarrow> fst (Atoi p) | None \<Rightarrow> defaultPort)
            else port c)"
    by (simp add: rfe_port readPort_fields split: option.splits)
next
  fix p
  assume "port c = defaultPort" "env EnvPort = Some p"
  moreover have "fst (readPort env c) = None"
    using assms by (auto simp: rfe_err split: if_splits)
  ultimately show "snd (Atoi p) = None"
    by (auto simp: readPort_err split: if_splits)
next
  assume b: "- (2 ^ 63) \<le> port c \<and> port c < 2 ^ 63"
  have "port (snd (readFromEnvironment DT fm env c)) = port c \<or>
        (\<exists>p. port (snd (readFromEnvironment DT fm env c)) = fst (Atoi p))"
    by (auto simp: rfe_port readPort_fields split: option.splits)
  with b Atoi_range
  show "- (2 ^ 63) \<le> port (snd (readFromEnvironment DT fm env c))"
    and "port (snd (readFromEnvironment DT fm env c)) < 2 ^ 63"
    by auto
qed

text \<open>The default record and \<open>TESLA_HTTP_PROXY_PORT=70000\<close>.\<close>

theorem port_after_resolution_witness:
  "fst (readFromEnvironment 10000000000 exactFraction [EnvPort \<mapsto> ''70000'']
     (resetConfig 10000000000)) = None \<and>
   port (resetConfig 10000000000) = defaultPort \<and>
   - (2 ^ 63) \<le> port (resetConfig 10000000000) \<and> port (resetConfig 10000000000) < 2 ^ 63 \<and>
   [EnvPort \<mapsto> ''70000''] EnvPort = Some ''70000'' \<and>
   snd (Atoi ''70000'') = None \<and>
   port (snd (readFromEnvironment 10000000000 exactFraction [EnvPort \<mapsto> ''70000'']
     (resetConfig 10000000000))) = 70000 \<and>
   - (2 ^ 63) \<le> port (snd (readFromEnvironment 10000000000 exactFraction [EnvPort \<mapsto> ''70000'']
     (resetConfig 10000000000))) \<and>
   port (snd (readFromEnvironment 10000000000 exactFraction [EnvPort \<mapsto> ''70000'']
     (resetConfig 10000000000))) < 2 ^ 63"
proof -
  have ok: "fst (readFromEnvironment 10000000000 exactFraction [EnvPort \<mapsto> ''70000'']
     (resetConfig 10000000000)) = None"
    by (simp add: rfe_compute Atoi_70000)
  have c: "port (resetConfig 10000000000) = defaultPort"
    by (simp add: resetConfig_def)
  show ?thesis
    using ok c port_after_resolution [OF ok]
    by (simp add: Atoi_70000 defaultPort_def)
qed

text \<open>
  C9 as stated fails: with no flag and \<open>TESLA_HTTP_PROXY_PORT=70000\<close> the call
  returns \<open>nil\<close> and the port is 70000.
\<close>

theorem port_range_counterexample:
  "fst (readFromEnvironment 10000000000 exactFraction [EnvPort \<mapsto> ''70000'']
     (resetConfig 10000000000)) = None \<and>
   port (snd (readFromEnvironment 10000000000 exactFraction [EnvPort \<mapsto> ''70000'']
     (resetConfig 10000000000))) = 70000 \<and>
   \<not> (0 \<le> port (snd (readFromEnvironment 10000000000 exactFraction [EnvPort \<mapsto> ''70000'']
          (resetConfig 10000000000))) \<and>
      port (snd (readFromEnvironment 10000000000 exactFraction [EnvPort \<mapsto> ''70000'']
          (resetConfig 10000000000))) \<le> 65535)"
  by (simp add: rfe_compute Atoi_70000)

subsection \<open>C10: the failing field is overwritten\<close>

text \<open>
  C10, as amended. When \<open>readFromEnvironment\<close> returns the port error for the value
  \<open>p\<close>, the port field has been overwritten with the value \<open>Atoi\<close> returned next
  to its error: 0 when the error \<open>Atoi\<close> reports is a syntax error, and the largest
  or the smallest 64-bit \<open>int\<close> when the error \<open>Atoi\<close> reports is a range error;
  either way the port no longer is what it was. When it returns the timeout error
  for the value \<open>t\<close>, the timeout field has been overwritten with the zero
  duration, which differs from what it was unless \<open>DefaultTimeout\<close> is itself zero.
\<close>

theorem failing_field_overwritten:
  "(fst (readFromEnvironment DT fm env c) = Some (InvalidPort p) \<longrightarrow>
      env EnvPort = Some p \<and>
      port (snd (readFromEnvironment DT fm env c)) = fst (Atoi p) \<and>
      (snd (Atoi p) = Some ErrSyntax \<and> port (snd (readFromEnvironment DT fm env c)) = 0 \<or>
       snd (Atoi p) = Some ErrRange \<and>
         (port (snd (readFromEnvironment DT fm env c)) = 2 ^ 63 - 1 \<or>
          port (snd (readFromEnvironment DT fm env c)) = - (2 ^ 63))) \<and>
      port (snd (readFromEnvironment DT fm env c)) \<noteq> port c) \<and>
   (fst (readFromEnvironment DT fm env c) = Some (InvalidTimeout t) \<longrightarrow>
      env EnvTimeout = Some t \<and>
      snd (ParseDuration fm t) \<noteq> None \<and>
      timeout (snd (readFromEnvironment DT fm env c)) = 0 \<and>
      (DT \<noteq> 0 \<longrightarrow> timeout (snd (readFromEnvironment DT fm env c)) \<noteq> timeout c))"
proof (intro conjI impI)
  assume e: "fst (readFromEnvironment DT fm env c) = Some (InvalidPort p)"
  have t: "fst (readTimeout DT fm env c) \<noteq> Some (InvalidPort p)"
    by (auto simp: readTimeout_err split: option.splits)
  from e t have pe: "fst (readPort env c) = Some (InvalidPort p)"
    by (auto simp: rfe_err split: if_splits)
  then have c: "port c = defaultPort" and v: "env EnvPort = Some p" and a: "snd (Atoi p) \<noteq> None"
    by (auto simp: readPort_err split: option.splits if_splits)
  show "env EnvPort = Some p" by (rule v)
  show q: "port (snd (readFromEnvironment DT fm env c)) = fst (Atoi p)"
    using c v by (simp add: rfe_port readPort_fields)
  from a obtain k where k: "snd (Atoi p) = Some k" by auto
  from Atoi_error_value [OF k] k q
  show r: "snd (Atoi p) = Some ErrSyntax \<and> port (snd (readFromEnvironment DT fm env c)) = 0 \<or>
       snd (Atoi p) = Some ErrRange \<and>
         (port (snd (readFromEnvironment DT fm env c)) = 2 ^ 63 - 1 \<or>
          port (snd (readFromEnvironment DT fm env c)) = - (2 ^ 63))"
    by auto
  from r c show "port (snd (readFromEnvironment DT fm env c)) \<noteq> port c"
    by (auto simp: defaultPort_def)
next
  assume e: "fst (readFromEnvironment DT fm env c) = Some (InvalidTimeout t)"
  have "fst (readPort env c) \<noteq> Some (InvalidTimeout t)"
    by (auto simp: readPort_err split: option.splits)
  with e have pe: "fst (readPort env c) = None"
    and te: "fst (readTimeout DT fm env c) = Some (InvalidTimeout t)"
    by (auto simp: rfe_err split: if_splits)
  from te have c: "timeout c = DT" and v: "env EnvTimeout = Some t"
    and a: "snd (ParseDuration fm t) \<noteq> None"
    by (auto simp: readTimeout_err split: option.splits if_splits)
  show "env EnvTimeout = Some t" by (rule v)
  show "snd (ParseDuration fm t) \<noteq> None" by (rule a)
  show z: "timeout (snd (readFromEnvironment DT fm env c)) = 0"
    using pe c v ParseDuration_error_zero [OF a] by (simp add: rfe_timeout readTimeout_fields)
  assume "DT \<noteq> 0"
  with z c show "timeout (snd (readFromEnvironment DT fm env c)) \<noteq> timeout c"
    by simp
qed

text \<open>A malformed port, and a malformed timeout, on the default record.\<close>

theorem failing_field_overwritten_witness:
  "fst (readFromEnvironment 10000000000 exactFraction
     [EnvPort \<mapsto> ''notanumber'', EnvTimeout \<mapsto> ''30s''] (resetConfig 10000000000))
     = Some (InvalidPort ''notanumber'') \<and>
   port (snd (readFromEnvironment 10000000000 exactFraction
     [EnvPort \<mapsto> ''notanumber'', EnvTimeout \<mapsto> ''30s''] (resetConfig 10000000000))) = 0 \<and>
   port (resetConfig 10000000000) = 8080 \<and>
   fst (readFromEnvironment 10000000000 exactFraction [EnvTimeout \<mapsto> ''notaduration'']
     (resetConfig 10000000000)) = Some (InvalidTimeout ''notaduration'') \<and>
   (10000000000 :: int) \<noteq> 0 \<and>
   timeout (snd (readFromEnvironment 10000000000 exactFraction [EnvTimeout \<mapsto> ''notaduration'']
     (resetConfig 10000000000))) = 0 \<and>
   timeout (resetConfig 10000000000) = 10000000000"
proof -
  have a: "fst (readFromEnvironment 10000000000 exactFraction
     [EnvPort \<mapsto> ''notanumber'', EnvTimeout \<mapsto> ''30s''] (resetConfig 10000000000))
     = Some (InvalidPort ''notanumber'')"
    by (simp add: example_bad_port_first)
  have b: "fst (readFromEnvironment 10000000000 exactFraction [EnvTimeout \<mapsto> ''notaduration'']
     (resetConfig 10000000000)) = Some (InvalidTimeout ''notaduration'')"
    by (simp add: example_bad_timeout)
  show ?thesis
    using a b
      failing_field_overwritten [of 10000000000 exactFraction
        "[EnvPort \<mapsto> ''notanumber'', EnvTimeout \<mapsto> ''30s'']" "resetConfig 10000000000"
        "''notanumber''" "''x''"]
      failing_field_overwritten [of 10000000000 exactFraction
        "[EnvTimeout \<mapsto> ''notaduration'']" "resetConfig 10000000000"
        "''x''" "''notaduration''"]
    by (simp add: Atoi_notanumber resetConfig_def defaultPort_def)
qed

text \<open>
  C10 as stated fails for a port out of range: \<open>9223372036854775808\<close> is rejected
  and the port is left at 9223372036854775807, not at 0.
\<close>

theorem clobbered_to_zero_counterexample:
  "fst (readFromEnvironment 10000000000 exactFraction [EnvPort \<mapsto> ''9223372036854775808'']
     (resetConfig 10000000000)) = Some (InvalidPort ''9223372036854775808'') \<and>
   port (snd (readFromEnvironment 10000000000 exactFraction [EnvPort \<mapsto> ''9223372036854775808'']
     (resetConfig 10000000000))) = 9223372036854775807 \<and>
   port (snd (readFromEnvironment 10000000000 exactFraction [EnvPort \<mapsto> ''9223372036854775808'']
     (resetConfig 10000000000))) \<noteq> 0"
  by (simp add: rfe_compute Atoi_2_63)

end
